theory Spec2Isabelle
  imports
    Complex_Main
    "HOL-Library.AList"
    "HOL-Library.Char_ord"
    "HOL-Library.List_Lexorder"
begin

section \<open>JavaScript values\<close>

text \<open>
  The storage adapter is written against values whose shape is only known at run time:
  the load callback is typed to return a Session, a bag of fields or \<open>undefined\<close>, and the
  code asks \<open>if (result)\<close>, \<open>instanceof\<close>, \<open>in\<close> and \<open>typeof\<close> of whatever came back. The
  values are therefore modelled as one datatype.

  \<^item> A number is a rational, an infinity or NaN (a double is one of these; \<open>-0\<close> is \<open>0\<close>).
  \<^item> A string is a \<open>char list\<close>, read as the UTF-8 bytes of the JavaScript string.
  \<^item> \<open>JDate s\<close> is the object \<open>new Date(s)\<close>, kept by the string it was parsed from.
  \<^item> \<open>JArr xs\<close> is an array made in the realm the adapter runs in. \<open>JForeignArr xs\<close> is an
    array made in another realm (a \<open>vm\<close> context, a frame): it is an array with the same
    elements, but its prototype chain holds that realm's \<open>Array.prototype\<close> and
    \<open>Object.prototype\<close>, so \<open>instanceof\<close> against this realm's constructors is false.
  \<^item> \<open>JObj c fs\<close> is an object with own enumerable fields \<open>fs\<close> in insertion order (the
    first entry of a key is the field) whose prototype chain leads to the constructor
    named \<open>c\<close>: \<open>Some ''Object''\<close> for an object literal or a parsed JSON record,
    \<open>Some ''Session''\<close> for a Session instance, \<open>None\<close> for an object without prototype
    (\<open>Object.create(null)\<close>). Fields are data; accessors, inherited fields and an own field
    called \<open>constructor\<close> are outside the model.
\<close>

datatype js_number = NaN | PosInfinity | NegInfinity | Num rat

datatype jsval =
    JUndefined
  | JNull
  | JBool bool
  | JNum js_number
  | JStr string
  | JDate string
  | JArr "jsval list"
  | JForeignArr "jsval list"
  | JObj "string option" "(string \<times> jsval) list"

text \<open>
  An Error object: the name of its constructor (its type), and the \<open>name\<close> and
  \<open>message\<close> properties that \<open>Error.prototype.toString\<close> reads.
\<close>

datatype js_error = JsError (err_class: string) (err_name: string) (err_message: string)

text \<open>\<open>Error.prototype.toString\<close>, which the string conversion of an Error object calls.\<close>

definition error_toString :: "js_error \<Rightarrow> string" where
  "error_toString e =
     (if err_name e = [] then err_message e
      else if err_message e = [] then err_name e
      else err_name e @ '': '' @ err_message e)"

text \<open>
  Modelled from the spec: the error module (\<open>../../../error\<close>) is not among the sources.
  \<open>SessionStorageError\<close> is the single error kind of the storage boundary, an Error
  subclass constructed from a message; it inherits \<open>name\<close> from \<open>Error.prototype\<close>.
\<close>

definition SessionStorageError :: "string \<Rightarrow> js_error" where
  "SessionStorageError msg = JsError ''SessionStorageError'' ''Error'' msg"

text \<open>
  The engine's own error for a property read on \<open>undefined\<close> or \<open>null\<close>, and for a value
  that cannot be converted to a string.
\<close>

definition TypeError :: "string \<Rightarrow> js_error" where
  "TypeError msg = JsError ''TypeError'' ''TypeError'' msg"

text \<open>
  A callback may throw, or reject with, any value. What the adapter does with a caught
  value is to put it into a template string, so the thrown values are told apart by
  their string conversion:

  \<^item> an Error object;
  \<^item> \<open>undefined\<close> (a bare \<open>Promise.reject()\<close>), \<open>null\<close>, a boolean, a string;
  \<^item> a symbol, by its description;
  \<^item> \<open>ThrownObject c fs\<close>, an object with own data fields \<open>fs\<close> that has no string
    conversion of its own: \<open>Some c\<close> when it inherits \<open>toString\<close> from \<open>Object.prototype\<close>
    (an object literal, a parsed JSON record), \<open>None\<close> when it has no prototype;
  \<^item> \<open>ThrownOther c text\<close>, any other value that the engine converts to a string (a
    number, a date, an array, an instance of a class with its own \<open>toString\<close>), kept by the
    name of its constructor and the string it converts to.
\<close>

datatype js_thrown =
    ThrownError js_error
  | ThrownUndefined
  | ThrownNull
  | ThrownBool bool
  | ThrownString string
  | ThrownSymbol string
  | ThrownObject "string option" "(string \<times> jsval) list"
  | ThrownOther string string

text \<open>
  \<open>`${error}`\<close>: the string conversion of the caught value. It throws for a symbol and for
  an object that offers no usable \<open>toString\<close>: one without prototype, or one whose own
  \<open>toString\<close> field is data and so hides the inherited method.
\<close>

fun template_string :: "js_thrown \<Rightarrow> js_error + string" where
  "template_string (ThrownError e) = Inr (error_toString e)"
| "template_string ThrownUndefined = Inr ''undefined''"
| "template_string ThrownNull = Inr ''null''"
| "template_string (ThrownBool b) = Inr (if b then ''true'' else ''false'')"
| "template_string (ThrownString s) = Inr s"
| "template_string (ThrownSymbol d) =
     Inl (TypeError ''Cannot convert a Symbol value to a string'')"
| "template_string (ThrownObject None fs) =
     Inl (TypeError ''Cannot convert object to primitive value'')"
| "template_string (ThrownObject (Some c) fs) =
     (if map_of fs ''toString'' = None then Inr ''[object Object]''
      else Inl (TypeError ''Cannot convert object to primitive value''))"
| "template_string (ThrownOther c text) = Inr text"

text \<open>\<open>if (v)\<close>: ToBoolean.\<close>

fun truthy :: "jsval \<Rightarrow> bool" where
  "truthy JUndefined = False"
| "truthy JNull = False"
| "truthy (JBool b) = b"
| "truthy (JNum n) = (n \<noteq> NaN \<and> n \<noteq> Num 0)"
| "truthy (JStr s) = (s \<noteq> [])"
| "truthy (JDate s) = True"
| "truthy (JArr xs) = True"
| "truthy (JForeignArr xs) = True"
| "truthy (JObj c fs) = True"

fun js_typeof :: "jsval \<Rightarrow> string" where
  "js_typeof JUndefined = ''undefined''"
| "js_typeof JNull = ''object''"
| "js_typeof (JBool b) = ''boolean''"
| "js_typeof (JNum n) = ''number''"
| "js_typeof (JStr s) = ''string''"
| "js_typeof (JDate s) = ''object''"
| "js_typeof (JArr xs) = ''object''"
| "js_typeof (JForeignArr xs) = ''object''"
| "js_typeof (JObj c fs) = ''object''"

text \<open>\<open>v instanceof Session\<close>, \<open>v instanceof Object\<close>, \<open>v instanceof Array\<close>.\<close>

fun instanceof_Session :: "jsval \<Rightarrow> bool" where
  "instanceof_Session (JObj c fs) = (c = Some ''Session'')"
| "instanceof_Session v = False"

fun instanceof_Object :: "jsval \<Rightarrow> bool" where
  "instanceof_Object (JObj c fs) = (c \<noteq> None)"
| "instanceof_Object (JDate s) = True"
| "instanceof_Object (JArr xs) = True"
| "instanceof_Object v = False"

fun instanceof_Array :: "jsval \<Rightarrow> bool" where
  "instanceof_Array (JArr xs) = True"
| "instanceof_Array v = False"

text \<open>The elements of an array, of either realm, in index order.\<close>

fun array_elements :: "jsval \<Rightarrow> jsval list" where
  "array_elements (JArr xs) = xs"
| "array_elements (JForeignArr xs) = xs"
| "array_elements v = []"

text \<open>The own fields of an object; a date or an array of the model has none.\<close>

fun own_fields :: "jsval \<Rightarrow> (string \<times> jsval) list" where
  "own_fields (JObj c fs) = fs"
| "own_fields v = []"

text \<open>\<open>k in v\<close>, for a \<open>v\<close> that is an object (the operator throws on a primitive).\<close>

definition has_property :: "string \<Rightarrow> jsval \<Rightarrow> bool" where
  "has_property k v = (map_of (own_fields v) k \<noteq> None)"

text \<open>\<open>v.k\<close> for a data field \<open>k\<close> of an object: \<open>undefined\<close> when there is none.\<close>

definition get_prop :: "jsval \<Rightarrow> string \<Rightarrow> jsval" where
  "get_prop v k = (case map_of (own_fields v) k of Some x \<Rightarrow> x | None \<Rightarrow> JUndefined)"

text \<open>\<open>v.k = x\<close> on an object: an existing field keeps its place, a new one goes last.\<close>

fun set_prop :: "jsval \<Rightarrow> string \<Rightarrow> jsval \<Rightarrow> jsval" where
  "set_prop (JObj c fs) k x = JObj c (AList.update k x fs)"
| "set_prop v k x = v"

text \<open>
  \<open>v.constructor.name\<close>: the constructor is found through the prototype, also for a
  primitive (through its wrapper). An object without prototype has no \<open>constructor\<close>,
  and reading \<open>name\<close> of \<open>undefined\<close> throws.
\<close>

fun constructor_name :: "jsval \<Rightarrow> js_error + string" where
  "constructor_name (JBool b) = Inr ''Boolean''"
| "constructor_name (JNum n) = Inr ''Number''"
| "constructor_name (JStr s) = Inr ''String''"
| "constructor_name (JDate s) = Inr ''Date''"
| "constructor_name (JArr xs) = Inr ''Array''"
| "constructor_name (JForeignArr xs) = Inr ''Array''"
| "constructor_name (JObj (Some c) fs) = Inr c"
| "constructor_name (JObj None fs) =
     Inl (TypeError ''Cannot read properties of undefined (reading 'name')'')"
| "constructor_name JUndefined =
     Inl (TypeError ''Cannot read properties of undefined (reading 'constructor')'')"
| "constructor_name JNull =
     Inl (TypeError ''Cannot read properties of null (reading 'constructor')'')"

text \<open>
  \<open>{...a, ...b}\<close>: a fresh plain object that receives the own fields of \<open>a\<close> and then those
  of \<open>b\<close>, key by key, each read from its source.
\<close>

definition assign :: "(string \<times> jsval) list \<Rightarrow> jsval \<Rightarrow> (string \<times> jsval) list" where
  "assign target src =
     fold (\<lambda>k acc. AList.update k (get_prop src k) acc) (remdups (map fst (own_fields src))) target"

definition spread :: "jsval \<Rightarrow> jsval \<Rightarrow> jsval" where
  "spread a b = JObj (Some ''Object'') (assign (assign [] a) b)"

text \<open>
  Modelled from the spec: the Session class (\<open>../session\<close>) is not among the sources. Its
  constructor takes the four mandatory fields id, shop, state and isOnline and makes the
  canonical Session that holds them; the optional attributes start out unset.
\<close>

definition new_Session :: "jsval \<Rightarrow> jsval \<Rightarrow> jsval \<Rightarrow> jsval \<Rightarrow> jsval" where
  "new_Session i shop state isOnline =
     JObj (Some ''Session'')
       [(''id'', i), (''shop'', shop), (''state'', state), (''isOnline'', isOnline)]"

text \<open>\<open>new Date(v)\<close> for the string the code passes.\<close>

fun new_Date :: "jsval \<Rightarrow> jsval" where
  "new_Date (JStr s) = JDate s"
| "new_Date v = v"


section \<open>CustomSessionStorage\<close>

text \<open>
  The adapter holds the five callbacks; the two optional ones may be \<open>undefined\<close>. A
  callback is given by the outcome of awaiting its call: the value it throws or rejects
  with (\<open>Inl\<close>), or the value it resolves to (\<open>Inr\<close>). The adapter's methods either resolve
  or fail with an Error object: the SessionStorageError they construct, or a TypeError of
  the engine. The load and find callbacks are typed in the source, but their results are
  inspected at run time, so they resolve to any value here.
\<close>

record CustomSessionStorage =
  storeSessionCallback :: "jsval \<Rightarrow> js_thrown + bool"
  loadSessionCallback :: "string \<Rightarrow> js_thrown + jsval"
  deleteSessionCallback :: "string \<Rightarrow> js_thrown + bool"
  deleteSessionsCallback :: "(string list \<Rightarrow> js_thrown + bool) option"
  findSessionsByShopCallback :: "(string \<Rightarrow> js_thrown + jsval) option"

definition storeSession :: "CustomSessionStorage \<Rightarrow> jsval \<Rightarrow> js_error + bool" where
  "storeSession this session =
     (case storeSessionCallback this session of
        Inr b \<Rightarrow> Inr b
      | Inl error \<Rightarrow>
          (case template_string error of
               Inl e \<Rightarrow> Inl e
             | Inr text \<Rightarrow>
                 Inl (SessionStorageError
                   (''CustomSessionStorage failed to store a session. Error Details: '' @ text))))"

text \<open>
  The two places where \<open>loadSession\<close> turns an \<open>expires\<close> string into a Date share this
  statement: \<open>if (v.expires && typeof v.expires === 'string') v.expires = new Date(v.expires)\<close>.
\<close>

definition coerce_expires :: "jsval \<Rightarrow> jsval" where
  "coerce_expires v =
     (if truthy (get_prop v ''expires'') \<and> js_typeof (get_prop v ''expires'') = ''string''
      then set_prop v ''expires'' (new_Date (get_prop v ''expires''))
      else v)"

definition loadSession :: "CustomSessionStorage \<Rightarrow> string \<Rightarrow> js_error + jsval" where
  "loadSession this i =
     (case loadSessionCallback this i of
        Inl error \<Rightarrow>
          (case template_string error of
               Inl e \<Rightarrow> Inl e
             | Inr text \<Rightarrow>
                 Inl (SessionStorageError
                   (''CustomSessionStorage failed to load a session. Error Details: '' @ text)))
      | Inr result \<Rightarrow>
          if truthy result then
            if instanceof_Session result then Inr (coerce_expires result)
            else if instanceof_Object result \<and> has_property ''id'' result then
              let session = new_Session (get_prop result ''id'') (get_prop result ''shop'')
                              (get_prop result ''state'') (get_prop result ''isOnline'');
                  session = spread session result
              in Inr (coerce_expires session)
            else
              (case constructor_name result of
                 Inl e \<Rightarrow> Inl e
               | Inr n \<Rightarrow>
                   Inl (SessionStorageError
                     (''Expected return to be instanceof Session, but received instanceof ''
                        @ n @ ''.'')))
          else Inr JUndefined)"

definition deleteSession :: "CustomSessionStorage \<Rightarrow> string \<Rightarrow> js_error + bool" where
  "deleteSession this i =
     (case deleteSessionCallback this i of
        Inr b \<Rightarrow> Inr b
      | Inl error \<Rightarrow>
          (case template_string error of
               Inl e \<Rightarrow> Inl e
             | Inr text \<Rightarrow>
                 Inl (SessionStorageError
                   (''CustomSessionStorage failed to delete a session. Error Details: '' @ text))))"

text \<open>
  \<open>deleteSessions\<close> and \<open>findSessionsByShop\<close> also write to the console: their outcome is
  paired with the lines given to \<open>console.warn\<close>.
\<close>

definition deleteSessions ::
  "CustomSessionStorage \<Rightarrow> string list \<Rightarrow> string list \<times> (js_error + bool)" where
  "deleteSessions this ids =
     (case deleteSessionsCallback this of
        Some cb \<Rightarrow>
          (case cb ids of
             Inr b \<Rightarrow> ([], Inr b)
           | Inl error \<Rightarrow>
               ([], (case template_string error of
                     Inl e \<Rightarrow> Inl e
                   | Inr text \<Rightarrow>
                       Inl (SessionStorageError
                         (''CustomSessionStorage failed to delete array of sessions. Error Details: '' @ text)))))
      | None \<Rightarrow>
          ([''CustomSessionStorage failed to delete array of sessions. Error Details: deleteSessionsCallback not defined.''],
           Inr False))"

text \<open>The loop \<open>results.forEach((element) => sessions.push(element))\<close>.\<close>

definition push_all :: "jsval list \<Rightarrow> jsval list \<Rightarrow> jsval list" where
  "push_all results sessions = fold (\<lambda>element acc. acc @ [element]) results sessions"

definition findSessionsByShop ::
  "CustomSessionStorage \<Rightarrow> string \<Rightarrow> string list \<times> (js_error + jsval list)" where
  "findSessionsByShop this shop =
     (case findSessionsByShopCallback this of
        Some cb \<Rightarrow>
          (case cb shop of
             Inl error \<Rightarrow>
               ([], (case template_string error of
                     Inl e \<Rightarrow> Inl e
                   | Inr text \<Rightarrow>
                       Inl (SessionStorageError
                         (''CustomSessionStorage failed to find sessions by shop. Error Details: '' @ text))))
           | Inr results \<Rightarrow>
               if truthy results \<and> instanceof_Array results
               then ([], Inr (push_all (array_elements results) []))
               else ([], Inr []))
      | None \<Rightarrow>
          ([''CustomSessionStorage failed to find sessions by shop. Error Details: findSessionsByShopCallback not defined.''],
           Inr []))"


section \<open>Signed test requests\<close>

text \<open>
  The test helpers sign webhook bodies and query strings with Node's \<open>crypto\<close> module.
  HMAC-SHA256 itself belongs to Node, not to this repository: it is the parameter
  \<open>hmac_sha256\<close>, from the key bytes and the message bytes to the digest bytes. Strings
  are byte strings (UTF-8), so \<open>update(body, 'utf8')\<close> passes the body as it is. The two
  text encodings of a digest that the helpers ask for are written out.
\<close>

definition TEST_SHOP :: string where
  "TEST_SHOP = ''test-shop.myshopify.io''"

definition TEST_WEBHOOK_ID :: string where
  "TEST_WEBHOOK_ID = ''1234567890''"

datatype BinaryToTextEncoding = Base64 | Hex

definition hex_digit :: "nat \<Rightarrow> char" where
  "hex_digit n = (if n mod 16 < 10 then char_of (48 + n mod 16) else char_of (87 + n mod 16))"

definition hex_encode :: "string \<Rightarrow> string" where
  "hex_encode bytes =
     concat (map (\<lambda>c. [hex_digit (of_char c div 16), hex_digit (of_char c mod 16)]) bytes)"

definition base64_digit :: "nat \<Rightarrow> char" where
  "base64_digit n =
     ''ABCDEFGHIJKLMNOPQRSTUVWXYZabcdefghijklmnopqrstuvwxyz0123456789+/'' ! (n mod 64)"

fun base64_bytes :: "nat list \<Rightarrow> string" where
  "base64_bytes [] = []"
| "base64_bytes [a] =
     [base64_digit (a div 4), base64_digit ((a mod 4) * 16), CHR ''='', CHR ''='']"
| "base64_bytes [a, b] =
     [base64_digit (a div 4), base64_digit ((a mod 4) * 16 + b div 16),
      base64_digit ((b mod 16) * 4), CHR ''='']"
| "base64_bytes (a # b # c # rest) =
     [base64_digit (a div 4), base64_digit ((a mod 4) * 16 + b div 16),
      base64_digit ((b mod 16) * 4 + c div 64), base64_digit (c mod 64)] @ base64_bytes rest"

definition base64_encode :: "string \<Rightarrow> string" where
  "base64_encode bytes = base64_bytes (map of_char bytes)"

fun digest :: "BinaryToTextEncoding \<Rightarrow> string \<Rightarrow> string" where
  "digest Base64 bytes = base64_encode bytes"
| "digest Hex bytes = hex_encode bytes"

definition createTestHmac ::
  "(string \<Rightarrow> string \<Rightarrow> string) \<Rightarrow> string \<Rightarrow> string \<Rightarrow> BinaryToTextEncoding \<Rightarrow> string" where
  "createTestHmac hmac_sha256 secretKey body enc = digest enc (hmac_sha256 secretKey body)"

text \<open>
  \<open>validWebhookHeaders\<close> leaves the \<open>digest\<close> argument of \<open>createTestHmac\<close> at its default,
  \<open>'base64'\<close>. \<open>LATEST_API_VERSION\<close> comes from the API library and is a parameter.
\<close>

definition validWebhookHeaders ::
  "(string \<Rightarrow> string \<Rightarrow> string) \<Rightarrow> string \<Rightarrow> string \<Rightarrow> string \<Rightarrow> string
     \<Rightarrow> (string \<times> string) list" where
  "validWebhookHeaders hmac_sha256 LATEST_API_VERSION topic body secretKey =
     (let hmac = createTestHmac hmac_sha256 secretKey body Base64
      in [(''X-Shopify-Topic'', topic),
          (''X-Shopify-Shop-Domain'', TEST_SHOP),
          (''X-Shopify-Hmac-Sha256'', hmac),
          (''X-Shopify-Webhook-Id'', TEST_WEBHOOK_ID),
          (''X-Shopify-Api-Version'', LATEST_API_VERSION)])"

text \<open>
  \<open>URLSearchParams\<close>: a list of name/value pairs. \<open>append\<close> adds a pair at the end;
  \<open>toString\<close> is the \<open>application/x-www-form-urlencoded\<close> serializer: in names and values a
  space becomes \<open>+\<close>, ASCII letters and digits and \<open>* - . _\<close> stay, and every other byte
  becomes \<open>%\<close> and two upper-case hexadecimal digits.
\<close>

definition form_unreserved :: "char \<Rightarrow> bool" where
  "form_unreserved c =
     (let n = (of_char c :: nat)
      in (48 \<le> n \<and> n \<le> 57) \<or> (65 \<le> n \<and> n \<le> 90) \<or> (97 \<le> n \<and> n \<le> 122)
         \<or> c = CHR ''*'' \<or> c = CHR ''-'' \<or> c = CHR ''.'' \<or> c = CHR ''_'')"

definition upper_hex_digit :: "nat \<Rightarrow> char" where
  "upper_hex_digit n =
     (if n mod 16 < 10 then char_of (48 + n mod 16) else char_of (55 + n mod 16))"

definition form_encode_byte :: "char \<Rightarrow> string" where
  "form_encode_byte c =
     (if c = CHR '' '' then ''+''
      else if form_unreserved c then [c]
      else [CHR ''%'', upper_hex_digit (of_char c div 16), upper_hex_digit (of_char c mod 16)])"

definition form_encode :: "string \<Rightarrow> string" where
  "form_encode s = concat (map form_encode_byte s)"

fun join_with :: "string \<Rightarrow> string list \<Rightarrow> string" where
  "join_with sep [] = []"
| "join_with sep [x] = x"
| "join_with sep (x # y # ys) = x @ sep @ join_with sep (y # ys)"

definition URLSearchParams_append ::
  "(string \<times> string) list \<Rightarrow> string \<Rightarrow> string \<Rightarrow> (string \<times> string) list" where
  "URLSearchParams_append args name v = args @ [(name, v)]"

definition URLSearchParams_toString :: "(string \<times> string) list \<Rightarrow> string" where
  "URLSearchParams_toString args =
     join_with ''&'' (map (\<lambda>(name, v). form_encode name @ ''='' @ form_encode v) args)"

text \<open>\<open>n.toString()\<close> of a non-negative integer: its decimal digits.\<close>

fun number_toString :: "nat \<Rightarrow> string" where
  "number_toString n =
     (if n < 10 then [char_of (48 + n)]
      else number_toString (n div 10) @ [char_of (48 + n mod 10)])"

declare number_toString.simps [simp del]

text \<open>
  \<open>keys.sort(compare)\<close>: a stable sort by a comparison function that is negative, zero or
  positive. Each element is put in front of the first one it does not come after.
\<close>

fun insert_sorted :: "('a \<Rightarrow> 'a \<Rightarrow> int) \<Rightarrow> 'a \<Rightarrow> 'a list \<Rightarrow> 'a list" where
  "insert_sorted compare x [] = [x]"
| "insert_sorted compare x (y # ys) =
     (if compare x y \<le> 0 then x # y # ys else y # insert_sorted compare x ys)"

definition sort_with :: "('a \<Rightarrow> 'a \<Rightarrow> int) \<Rightarrow> 'a list \<Rightarrow> 'a list" where
  "sort_with compare xs = foldr (insert_sorted compare) xs []"

text \<open>
  \<open>queryArgs\<close>. The query is an object with string values: an association list in property
  order. \<open>String.prototype.localeCompare\<close> is the engine's locale-aware collation and a
  parameter, as are the clock (\<open>Date.now()\<close>, in milliseconds) and the secret, which the
  source reads from the global \<open>shopify.api.config.apiSecretKey\<close>. The definition is split
  where the source evaluates \<open>args.toString()\<close> for the first time, so that the signed
  message has a name:

  \<^item> \<open>with_timestamp\<close> is the query after the \<open>if\<close>;
  \<^item> \<open>sorted_args\<close> is \<open>args\<close> after the \<open>forEach\<close>;
  \<^item> \<open>signed_message\<close> is the argument \<open>args.toString()\<close> of \<open>createTestHmac\<close>.

  \<open>args.append(key, query[key])\<close> turns a missing value into the string \<open>undefined\<close>.
\<close>

definition with_timestamp :: "nat \<Rightarrow> (string \<times> string) list \<Rightarrow> (string \<times> string) list" where
  "with_timestamp now query =
     (if \<not> (''timestamp'' \<in> set (map fst query))
      then query @ [(''timestamp'', number_toString (now div 1000))]
      else query)"

definition sorted_args ::
  "(string \<Rightarrow> string \<Rightarrow> int) \<Rightarrow> (string \<times> string) list \<Rightarrow> (string \<times> string) list" where
  "sorted_args localeCompare query =
     fold (\<lambda>key args.
            URLSearchParams_append args key
              (case map_of query key of Some v \<Rightarrow> v | None \<Rightarrow> ''undefined''))
       (sort_with (\<lambda>val1 val2. localeCompare val1 val2) (map fst query)) []"

definition signed_message ::
  "(string \<Rightarrow> string \<Rightarrow> int) \<Rightarrow> nat \<Rightarrow> (string \<times> string) list \<Rightarrow> string" where
  "signed_message localeCompare now query =
     URLSearchParams_toString (sorted_args localeCompare (with_timestamp now query))"

definition queryArgs ::
  "(string \<Rightarrow> string \<Rightarrow> string) \<Rightarrow> (string \<Rightarrow> string \<Rightarrow> int) \<Rightarrow> string \<Rightarrow> nat
     \<Rightarrow> (string \<times> string) list \<Rightarrow> string" where
  "queryArgs hmac_sha256 localeCompare apiSecretKey now query =
     (let args = sorted_args localeCompare (with_timestamp now query);
          args = URLSearchParams_append args ''hmac''
                   (createTestHmac hmac_sha256 apiSecretKey (URLSearchParams_toString args) Hex)
      in URLSearchParams_toString args)"

text \<open>
  The signing operation as the specification words it, for comparison with \<open>queryArgs\<close>:
  a \<open>timestamp\<close> key is ensured, the keys are sorted by byte order, the pairs are joined
  unencoded as \<open>key=value\<close> with \<open>&\<close>, and the \<open>hmac\<close> parameter is the lower-case
  hexadecimal HMAC-SHA256 of the joined string.
\<close>

definition spec_canonical_query :: "nat \<Rightarrow> (string \<times> string) list \<Rightarrow> string" where
  "spec_canonical_query now query =
     (let q = (if ''timestamp'' \<in> fst ` set query then query
               else query @ [(''timestamp'', number_toString (now div 1000))])
      in join_with ''&''
           (map (\<lambda>k. k @ ''='' @ (case map_of q k of Some v \<Rightarrow> v | None \<Rightarrow> ''undefined''))
              (sort (map fst q))))"

definition spec_signed_query ::
  "(string \<Rightarrow> string \<Rightarrow> string) \<Rightarrow> string \<Rightarrow> nat \<Rightarrow> (string \<times> string) list \<Rightarrow> string" where
  "spec_signed_query hmac_sha256 secret now query =
     spec_canonical_query now query @ ''&hmac=''
       @ hex_encode (hmac_sha256 secret (spec_canonical_query now query))"


section \<open>The after-auth hook\<close>

text \<open>
  \<open>triggerAfterAuthHook\<close> reads \<open>params.config.hooks.afterAuth\<close> and
  \<open>params.config.isEmbeddedApp\<close>. The admin context, the two redirect functions and the
  strategy's client-error handler are made by code outside the sources and are parameters;
  sessions, requests and these values are kept abstract. The hook is given by the outcome of
  awaiting its call. What the dispatcher does besides returning is recorded as a trace: the
  line it logs and the call it makes.
\<close>

datatype ('s, 'a, 'r) after_auth_options =
  AfterAuthOptions (opt_session: 's) (opt_admin: 'a) (opt_redirect: 'r)

datatype ('s, 'a, 'r) auth_event =
    LoggerInfo string
  | AfterAuthCall "('s, 'a, 'r) after_auth_options"

record ('s, 'a, 'r) hooks_config =
  afterAuth :: "(('s, 'a, 'r) after_auth_options \<Rightarrow> js_error + unit) option"

record ('s, 'a, 'r) app_config =
  hooks :: "('s, 'a, 'r) hooks_config"
  isEmbeddedApp :: bool

record ('s, 'a, 'r) basic_params =
  config :: "('s, 'a, 'r) app_config"

definition triggerAfterAuthHook ::
  "('s \<Rightarrow> ('s, 'a, 'r) basic_params \<Rightarrow> 'h \<Rightarrow> 'a)
     \<Rightarrow> (('s, 'a, 'r) basic_params \<Rightarrow> 'q \<Rightarrow> 'r) \<Rightarrow> 'r \<Rightarrow> ('q \<Rightarrow> 'h)
     \<Rightarrow> ('s, 'a, 'r) basic_params \<Rightarrow> 's \<Rightarrow> 'q
     \<Rightarrow> ('s, 'a, 'r) auth_event list \<times> (js_error + unit)" where
  "triggerAfterAuthHook createAdminApiContext redirectFactory remixRedirect handleClientError
       params sess request =
     (case afterAuth (hooks (config params)) of
        Some hook \<Rightarrow>
          (let options = AfterAuthOptions sess
                 (createAdminApiContext sess params (handleClientError request))
                 (if isEmbeddedApp (config params) then redirectFactory params request
                  else remixRedirect)
           in ([LoggerInfo ''Running afterAuth hook'', AfterAuthCall options], hook options))
      | None \<Rightarrow> ([], Inr ()))"

text \<open>The hook calls of a trace, in order.\<close>

fun hook_calls :: "('s, 'a, 'r) auth_event list \<Rightarrow> ('s, 'a, 'r) after_auth_options list" where
  "hook_calls [] = []"
| "hook_calls (LoggerInfo line # es) = hook_calls es"
| "hook_calls (AfterAuthCall options # es) = options # hook_calls es"


section \<open>Fixtures\<close>

text \<open>Concrete adapters and a byte-order comparison, for the examples below.\<close>

definition example_storage :: "(string \<Rightarrow> js_thrown + jsval) \<Rightarrow> CustomSessionStorage" where
  "example_storage load =
     \<lparr>storeSessionCallback = (\<lambda>s. Inr True), loadSessionCallback = load,
      deleteSessionCallback = (\<lambda>i. Inr True), deleteSessionsCallback = None,
      findSessionsByShopCallback = None\<rparr>"

definition failing_storage :: "js_thrown \<Rightarrow> CustomSessionStorage" where
  "failing_storage E =
     \<lparr>storeSessionCallback = (\<lambda>s. Inl E), loadSessionCallback = (\<lambda>i. Inl E),
      deleteSessionCallback = (\<lambda>i. Inl E), deleteSessionsCallback = Some (\<lambda>ids. Inl E),
      findSessionsByShopCallback = Some (\<lambda>shop. Inl E)\<rparr>"

definition finding_storage :: "jsval \<Rightarrow> CustomSessionStorage" where
  "finding_storage results =
     \<lparr>storeSessionCallback = (\<lambda>s. Inr True), loadSessionCallback = (\<lambda>i. Inr JUndefined),
      deleteSessionCallback = (\<lambda>i. Inr True), deleteSessionsCallback = None,
      findSessionsByShopCallback = Some (\<lambda>shop. Inr results)\<rparr>"

definition byte_order_compare :: "string \<Rightarrow> string \<Rightarrow> int" where
  "byte_order_compare a b = (if a < b then - 1 else if a = b then 0 else 1)"


section \<open>Auxiliary facts\<close>

lemma push_all_append: "push_all xs acc = acc @ xs"
  unfolding push_all_def by (induction xs arbitrary: acc) simp_all

lemma map_of_fold_update:
  "map_of (fold (\<lambda>k acc. AList.update k (f k) acc) ks t) k' =
     (if k' \<in> set ks then Some (f k') else map_of t k')"
  by (induction ks arbitrary: t) (simp_all add: update_conv')

lemma map_of_assign:
  "map_of (assign t src) k =
     (case map_of (own_fields src) k of Some v \<Rightarrow> Some v | None \<Rightarrow> map_of t k)"
proof (cases "map_of (own_fields src) k")
  case None
  then have "k \<notin> fst ` set (own_fields src)" by (simp add: map_of_eq_None_iff)
  with None show ?thesis by (simp add: assign_def map_of_fold_update)
next
  case (Some v)
  then have "k \<in> fst ` set (own_fields src)" by (metis map_of_eq_None_iff option.distinct(1))
  with Some show ?thesis by (simp add: assign_def map_of_fold_update get_prop_def)
qed

lemma map_of_spread:
  "map_of (own_fields (spread a b)) k =
     (case map_of (own_fields b) k of Some v \<Rightarrow> Some v | None \<Rightarrow> map_of (own_fields a) k)"
  by (simp add: spread_def map_of_assign split: option.splits)

lemma map_of_coerce_expires:
  "map_of (own_fields (coerce_expires (JObj c fs))) k =
     (if k = ''expires'' then
        (case map_of fs ''expires'' of
           Some (JStr s) \<Rightarrow> Some (if s = [] then JStr s else JDate s)
         | x \<Rightarrow> x)
      else map_of fs k)"
  by (cases "map_of fs ''expires''"; cases "the (map_of fs ''expires'')")
     (auto simp: coerce_expires_def get_prop_def update_conv' split: option.splits jsval.splits)

lemma coerce_expires_JObj: "\<exists>fs'. coerce_expires (JObj c fs) = JObj c fs'"
  by (simp add: coerce_expires_def)

text \<open>
  Every value that is not truthy is one of six: there is no other way to the
  \<open>return undefined\<close> of \<open>loadSession\<close>.
\<close>

lemma falsy_iff:
  "\<not> truthy v \<longleftrightarrow>
     v \<in> {JUndefined, JNull, JBool False, JNum (Num 0), JStr [], JNum NaN}"
  by (cases v) auto

text \<open>
  The last branch of \<open>loadSession\<close> does raise the SessionStorageError that names the
  constructor for every truthy value that is neither a Session nor an object with an
  \<open>id\<close>, as long as the value has a constructor to name: a primitive, a date, an array,
  an object with a prototype.
\<close>

lemma loadSession_unrecognized_shape:
  assumes "loadSessionCallback this i = Inr v" and "truthy v" and "\<not> instanceof_Session v"
    and "\<not> (instanceof_Object v \<and> has_property ''id'' v)"
    and "v \<noteq> JObj None (own_fields v)"
    and "map_of (own_fields v) ''constructor'' = None"
  shows "\<exists>n. constructor_name v = Inr n \<and> loadSession this i = Inl (SessionStorageError
        (''Expected return to be instanceof Session, but received instanceof '' @ n @ ''.''))"
  using assms by (cases v rule: constructor_name.cases) (auto simp: loadSession_def)


section \<open>Properties of the storage adapter\<close>

text \<open>
  C1. Let the load callback resolve to a record with a prototype that has an own \<open>id\<close>.
  If it is not a Session instance, \<open>loadSession\<close> resolves to a plain object whose fields
  are those of the canonical Session made from the record's id, shop, state and isOnline,
  overlaid by every field of the record (the record wins). If it is a Session instance,
  the instance is returned with its fields. In both cases an \<open>expires\<close> that is a non-empty
  string is replaced by the date parsed from it; an empty string, like any other value,
  stays what it was.
\<close>

theorem loadSession_normalizes:
  assumes "loadSessionCallback this i = Inr (JObj (Some c) fs)"
  shows "(c \<noteq> ''Session'' \<and> map_of fs ''id'' \<noteq> None \<longrightarrow>
           (\<exists>fs'. loadSession this i = Inr (JObj (Some ''Object'') fs') \<and>
              (\<forall>k. map_of fs' k =
                 (if k = ''expires'' then
                    (case map_of fs ''expires'' of
                       Some (JStr s) \<Rightarrow> Some (if s = [] then JStr s else JDate s)
                     | x \<Rightarrow> x)
                  else case map_of fs k of
                    Some v \<Rightarrow> Some v
                  | None \<Rightarrow>
                      map_of (own_fields (new_Session (get_prop (JObj (Some c) fs) ''id'')
                        (get_prop (JObj (Some c) fs) ''shop'') (get_prop (JObj (Some c) fs) ''state'')
                        (get_prop (JObj (Some c) fs) ''isOnline''))) k))))
       \<and> (c = ''Session'' \<longrightarrow>
           (\<exists>fs'. loadSession this i = Inr (JObj (Some ''Session'') fs') \<and>
              (\<forall>k. map_of fs' k =
                 (if k = ''expires'' then
                    (case map_of fs ''expires'' of
                       Some (JStr s) \<Rightarrow> Some (if s = [] then JStr s else JDate s)
                     | x \<Rightarrow> x)
                  else map_of fs k))))"
proof (intro conjI impI)
  assume c: "c \<noteq> ''Session'' \<and> map_of fs ''id'' \<noteq> None"
  let ?r = "JObj (Some c) fs"
  let ?s = "new_Session (get_prop ?r ''id'') (get_prop ?r ''shop'') (get_prop ?r ''state'')
              (get_prop ?r ''isOnline'')"
  obtain gs where gs: "spread ?s ?r = JObj (Some ''Object'') gs"
    by (simp add: spread_def)
  obtain fs' where fs': "coerce_expires (JObj (Some ''Object'') gs) = JObj (Some ''Object'') fs'"
    using coerce_expires_JObj by blast
  have load: "loadSession this i = Inr (JObj (Some ''Object'') fs')"
    using assms c gs fs' by (simp add: loadSession_def has_property_def)
  have look: "map_of gs k =
      (case map_of fs k of Some v \<Rightarrow> Some v | None \<Rightarrow> map_of (own_fields ?s) k)" for k
    using map_of_spread [of ?s ?r k] gs by simp
  have none: "map_of (own_fields ?s) ''expires'' = None"
    by (simp add: new_Session_def)
  have "map_of fs' k =
      (if k = ''expires'' then
         (case map_of fs ''expires'' of
            Some (JStr s) \<Rightarrow> Some (if s = [] then JStr s else JDate s)
          | x \<Rightarrow> x)
       else case map_of fs k of Some v \<Rightarrow> Some v | None \<Rightarrow> map_of (own_fields ?s) k)" for k
    using map_of_coerce_expires [of "Some ''Object''" gs k] fs' look none
    by (auto split: option.splits jsval.splits)
  with load show "\<exists>fs'. loadSession this i = Inr (JObj (Some ''Object'') fs') \<and>
      (\<forall>k. map_of fs' k =
        (if k = ''expires'' then
           (case map_of fs ''expires'' of
              Some (JStr s) \<Rightarrow> Some (if s = [] then JStr s else JDate s)
            | x \<Rightarrow> x)
         else case map_of fs k of Some v \<Rightarrow> Some v | None \<Rightarrow> map_of (own_fields ?s) k))"
    by blast
next
  assume c: "c = ''Session''"
  obtain fs' where fs': "coerce_expires (JObj (Some ''Session'') fs) = JObj (Some ''Session'') fs'"
    using coerce_expires_JObj by blast
  have load: "loadSession this i = Inr (JObj (Some ''Session'') fs')"
    using assms c fs' by (simp add: loadSession_def)
  have "map_of fs' k =
      (if k = ''expires'' then
         (case map_of fs ''expires'' of
            Some (JStr s) \<Rightarrow> Some (if s = [] then JStr s else JDate s)
          | x \<Rightarrow> x)
       else map_of fs k)" for k
    using map_of_coerce_expires [of "Some ''Session''" fs k] fs' by simp
  with load show "\<exists>fs'. loadSession this i = Inr (JObj (Some ''Session'') fs') \<and>
      (\<forall>k. map_of fs' k =
        (if k = ''expires'' then
           (case map_of fs ''expires'' of
              Some (JStr s) \<Rightarrow> Some (if s = [] then JStr s else JDate s)
            | x \<Rightarrow> x)
         else map_of fs k))"
    by blast
qed

text \<open>
  The record of the specification's example, as a plain record and as the fields of a
  Session instance.
\<close>

theorem loadSession_normalizes_witness:
  "(\<exists>fs'. loadSession (example_storage (\<lambda>i. Inr (JObj (Some ''Object'')
        [(''id'', JStr ''x''), (''shop'', JStr ''s.myshopify.io''), (''state'', JStr ''st''),
         (''isOnline'', JBool False), (''expires'', JStr ''2024-01-01T00:00:00Z'')]))) ''x''
          = Inr (JObj (Some ''Object'') fs')
      \<and> map_of fs' ''expires'' = Some (JDate ''2024-01-01T00:00:00Z'')
      \<and> map_of fs' ''id'' = Some (JStr ''x'')
      \<and> map_of fs' ''shop'' = Some (JStr ''s.myshopify.io'')
      \<and> map_of fs' ''state'' = Some (JStr ''st'')
      \<and> map_of fs' ''isOnline'' = Some (JBool False))
   \<and> (\<exists>fs'. loadSession (example_storage (\<lambda>i. Inr (JObj (Some ''Session'')
        [(''id'', JStr ''x''), (''shop'', JStr ''s.myshopify.io''), (''state'', JStr ''st''),
         (''isOnline'', JBool False), (''expires'', JStr ''2024-01-01T00:00:00Z'')]))) ''x''
          = Inr (JObj (Some ''Session'') fs')
      \<and> map_of fs' ''expires'' = Some (JDate ''2024-01-01T00:00:00Z'')
      \<and> map_of fs' ''id'' = Some (JStr ''x''))"
proof -
  let ?fs = "[(''id'', JStr ''x''), (''shop'', JStr ''s.myshopify.io''), (''state'', JStr ''st''),
         (''isOnline'', JBool False), (''expires'', JStr ''2024-01-01T00:00:00Z'')]"
  have a: "loadSessionCallback (example_storage (\<lambda>i. Inr (JObj (Some ''Object'') ?fs))) ''x''
             = Inr (JObj (Some ''Object'') ?fs)"
    by (simp add: example_storage_def)
  have b: "loadSessionCallback (example_storage (\<lambda>i. Inr (JObj (Some ''Session'') ?fs))) ''x''
             = Inr (JObj (Some ''Session'') ?fs)"
    by (simp add: example_storage_def)
  show ?thesis
    using loadSession_normalizes [OF a] loadSession_normalizes [OF b]
    by (auto simp: new_Session_def)
qed

text \<open>
  The claim as stated fails for an \<open>expires\<close> that is the empty string: it is a string, it
  is falsy, and it is returned as it came.
\<close>

theorem loadSession_empty_expires_counterexample:
  "loadSession (example_storage (\<lambda>i. Inr (JObj (Some ''Object'')
       [(''id'', JStr ''x''), (''shop'', JStr ''s.myshopify.io''), (''expires'', JStr [])])))
     ''x''
     = Inr (JObj (Some ''Object'')
         [(''id'', JStr ''x''), (''shop'', JStr ''s.myshopify.io''), (''state'', JUndefined),
          (''isOnline'', JUndefined), (''expires'', JStr [])])
   \<and> js_typeof (get_prop (JObj (Some ''Object'')
         [(''id'', JStr ''x''), (''shop'', JStr ''s.myshopify.io''), (''state'', JUndefined),
          (''isOnline'', JUndefined), (''expires'', JStr [])]) ''expires'') = ''string''"
  by (simp add: example_storage_def loadSession_def has_property_def get_prop_def spread_def
        assign_def new_Session_def coerce_expires_def)

text \<open>
  The string conversion of a caught value fails only with a TypeError, and it fails exactly
  for a symbol, an object without prototype and an object whose own \<open>toString\<close> is data.
\<close>

lemma template_string_TypeError:
  "template_string E = Inl e \<Longrightarrow> err_class e = ''TypeError''"
  by (cases E rule: template_string.cases) (auto simp: TypeError_def split: if_splits)

lemma template_string_fails_iff:
  "(\<exists>e. template_string E = Inl e) \<longleftrightarrow>
     (\<exists>d. E = ThrownSymbol d) \<or> (\<exists>fs. E = ThrownObject None fs)
     \<or> (\<exists>c fs. E = ThrownObject (Some c) fs \<and> map_of fs ''toString'' \<noteq> None)"
  by (cases E rule: template_string.cases) auto

text \<open>
  For every thrown value that has a string conversion (every Error object, string,
  boolean, \<open>undefined\<close>, \<open>null\<close>, plain record and engine-converted value) each of the five
  operations raises the SessionStorageError whose message ends in that conversion.
\<close>

lemma callback_failure_wrapped:
  assumes "template_string E = Inr text"
  shows "(storeSessionCallback this s = Inl E \<longrightarrow>
      storeSession this s = Inl (SessionStorageError
        (''CustomSessionStorage failed to store a session. Error Details: '' @ text)))
   \<and> (loadSessionCallback this i = Inl E \<longrightarrow>
      loadSession this i = Inl (SessionStorageError
        (''CustomSessionStorage failed to load a session. Error Details: '' @ text)))
   \<and> (deleteSessionCallback this i = Inl E \<longrightarrow>
      deleteSession this i = Inl (SessionStorageError
        (''CustomSessionStorage failed to delete a session. Error Details: '' @ text)))
   \<and> (deleteSessionsCallback this = Some del \<and> del ids = Inl E \<longrightarrow>
      deleteSessions this ids = ([], Inl (SessionStorageError
        (''CustomSessionStorage failed to delete array of sessions. Error Details: '' @ text))))
   \<and> (findSessionsByShopCallback this = Some cb \<and> cb shop = Inl E \<longrightarrow>
      findSessionsByShop this shop = ([], Inl (SessionStorageError
        (''CustomSessionStorage failed to find sessions by shop. Error Details: '' @ text))))"
  using assms
  by (simp add: storeSession_def loadSession_def deleteSession_def deleteSessions_def
        findSessionsByShop_def)

lemma callback_failure_wrapped_Error:
  "storeSession (failing_storage (ThrownError (JsError ''RangeError'' ''RangeError'' ''db down'')))
       JNull =
     Inl (JsError ''SessionStorageError'' ''Error''
       ''CustomSessionStorage failed to store a session. Error Details: RangeError: db down'')
   \<and> loadSession (failing_storage (ThrownString ''db down'')) ''x'' =
     Inl (JsError ''SessionStorageError'' ''Error''
       ''CustomSessionStorage failed to load a session. Error Details: db down'')
   \<and> deleteSession (failing_storage (ThrownObject (Some ''Object'') [(''code'', JNum (Num 5))]))
       ''x'' =
     Inl (JsError ''SessionStorageError'' ''Error''
       ''CustomSessionStorage failed to delete a session. Error Details: [object Object]'')
   \<and> deleteSessions (failing_storage ThrownUndefined) [''x''] =
     ([], Inl (JsError ''SessionStorageError'' ''Error''
       ''CustomSessionStorage failed to delete array of sessions. Error Details: undefined''))"
  by (simp add: failing_storage_def storeSession_def loadSession_def deleteSession_def
        deleteSessions_def SessionStorageError_def error_toString_def)

text \<open>
  C3. Every callback failure is to surface as one SessionStorageError that carries the
  description of what was thrown. Each catch block builds that description with
  \<open>`${error}`\<close>; when a callback rejects with a value that has no string conversion, here a
  record without prototype, the conversion throws inside the catch block, and all five
  operations fail with the engine's TypeError instead of a SessionStorageError.
\<close>

theorem callback_failure_without_string_conversion:
  "storeSession (failing_storage (ThrownObject None [(''code'', JStr ''ECONNRESET'')])) JNull =
     Inl (TypeError ''Cannot convert object to primitive value'')
   \<and> loadSession (failing_storage (ThrownObject None [(''code'', JStr ''ECONNRESET'')])) ''x'' =
     Inl (TypeError ''Cannot convert object to primitive value'')
   \<and> deleteSession (failing_storage (ThrownObject None [(''code'', JStr ''ECONNRESET'')])) ''x'' =
     Inl (TypeError ''Cannot convert object to primitive value'')
   \<and> deleteSessions (failing_storage (ThrownObject None [(''code'', JStr ''ECONNRESET'')])) [''x''] =
     ([], Inl (TypeError ''Cannot convert object to primitive value''))
   \<and> findSessionsByShop (failing_storage (ThrownObject None [(''code'', JStr ''ECONNRESET'')]))
       ''s.myshopify.io'' =
     ([], Inl (TypeError ''Cannot convert object to primitive value''))
   \<and> err_class (TypeError ''Cannot convert object to primitive value'') = ''TypeError''
   \<and> storeSession (failing_storage (ThrownSymbol ''down'')) JNull =
     Inl (TypeError ''Cannot convert a Symbol value to a string'')"
  by (simp add: failing_storage_def storeSession_def loadSession_def deleteSession_def
        deleteSessions_def findSessionsByShop_def TypeError_def)

text \<open>
  C4. A truthy value that is neither a Session instance nor an object with an \<open>id\<close> is
  to be refused with a SessionStorageError. A record without prototype and without \<open>id\<close>
  is such a value, and \<open>loadSession\<close> fails on it with the engine's TypeError instead:
  \<open>result instanceof Object\<close> is false for it, and the message of the intended error reads
  \<open>result.constructor.name\<close>.
\<close>

theorem loadSession_without_prototype:
  "loadSession (example_storage (\<lambda>i. Inr (JObj None [(''shop'', JStr ''s.myshopify.io'')]))) ''x''
     = Inl (TypeError ''Cannot read properties of undefined (reading 'name')'')"
  by (simp add: example_storage_def loadSession_def)

text \<open>
  C5. When the find callback resolves to a value that passes the adapter's own test
  \<open>results instanceof Array\<close>, that is, to an array of the adapter's realm,
  \<open>findSessionsByShop\<close> resolves to the elements of that array, each as it is: nothing is
  extracted, no \<open>expires\<close> string is parsed and no shape is checked.
\<close>

theorem findSessionsByShop_passes_through:
  assumes "findSessionsByShopCallback this = Some cb" and "cb shop = Inr v"
    and "instanceof_Array v"
  shows "v = JArr (array_elements v)
    \<and> findSessionsByShop this shop = ([], Inr (array_elements v))"
  using assms
  by (cases v rule: instanceof_Array.cases) (simp_all add: findSessionsByShop_def push_all_append)

theorem findSessionsByShop_passes_through_witness:
  "findSessionsByShop (finding_storage (JArr
       [JObj (Some ''Object'') [(''shop'', JStr ''s.myshopify.io''),
          (''expires'', JStr ''2024-01-01T00:00:00Z'')],
        JNum (Num 5)])) ''s.myshopify.io''
     = ([], Inr [JObj (Some ''Object'') [(''shop'', JStr ''s.myshopify.io''),
          (''expires'', JStr ''2024-01-01T00:00:00Z'')],
        JNum (Num 5)])"
  using findSessionsByShop_passes_through [where
      this = "finding_storage (JArr
       [JObj (Some ''Object'') [(''shop'', JStr ''s.myshopify.io''),
          (''expires'', JStr ''2024-01-01T00:00:00Z'')],
        JNum (Num 5)])"
      and cb = "\<lambda>shop. Inr (JArr
       [JObj (Some ''Object'') [(''shop'', JStr ''s.myshopify.io''),
          (''expires'', JStr ''2024-01-01T00:00:00Z'')],
        JNum (Num 5)])"
      and shop = "''s.myshopify.io''"
      and v = "JArr
       [JObj (Some ''Object'') [(''shop'', JStr ''s.myshopify.io''),
          (''expires'', JStr ''2024-01-01T00:00:00Z'')],
        JNum (Num 5)]"]
  by (simp add: finding_storage_def)

text \<open>
  The claim as stated, for every array, fails for an array of another realm: it does not
  pass \<open>instanceof Array\<close>, and its elements are dropped.
\<close>

theorem findSessionsByShop_foreign_array_counterexample:
  "findSessionsByShop (finding_storage (JForeignArr
       [JObj (Some ''Object'') [(''id'', JStr ''x''), (''shop'', JStr ''s.myshopify.io'')]]))
     ''s.myshopify.io'' = ([], Inr [])
   \<and> array_elements (JForeignArr
       [JObj (Some ''Object'') [(''id'', JStr ''x''), (''shop'', JStr ''s.myshopify.io'')]])
     = [JObj (Some ''Object'') [(''id'', JStr ''x''), (''shop'', JStr ''s.myshopify.io'')]]"
  by (simp add: finding_storage_def findSessionsByShop_def)

text \<open>
  C6. \<open>findSessionsByShop\<close> never resolves to an absent value. Without a callback it
  resolves to the empty sequence and warns once; when the callback resolves to something
  that is not an array it resolves to the empty sequence. In every case it either resolves
  to a sequence, or raises a SessionStorageError, or fails with the TypeError of converting
  what the callback threw.
\<close>

theorem findSessionsByShop_sequence:
  "(findSessionsByShopCallback this = None \<longrightarrow>
      findSessionsByShop this shop =
        ([''CustomSessionStorage failed to find sessions by shop. Error Details: findSessionsByShopCallback not defined.''],
         Inr []))
   \<and> (findSessionsByShopCallback this = Some cb \<and> cb shop = Inr v \<and> \<not> instanceof_Array v \<longrightarrow>
      findSessionsByShop this shop = ([], Inr []))
   \<and> ((\<exists>xs. snd (findSessionsByShop this shop) = Inr xs)
      \<or> (\<exists>msg. snd (findSessionsByShop this shop) = Inl (SessionStorageError msg))
      \<or> (\<exists>f E e. findSessionsByShopCallback this = Some f \<and> f shop = Inl E
            \<and> template_string E = Inl e \<and> snd (findSessionsByShop this shop) = Inl e))"
  by (auto simp: findSessionsByShop_def split: option.splits sum.splits)

theorem findSessionsByShop_sequence_witness:
  "findSessionsByShop (example_storage (\<lambda>i. Inr JUndefined)) ''s.myshopify.io'' =
     ([''CustomSessionStorage failed to find sessions by shop. Error Details: findSessionsByShopCallback not defined.''],
      Inr [])
   \<and> findSessionsByShop (finding_storage (JObj (Some ''Object'') [(''id'', JStr ''x'')]))
       ''s.myshopify.io'' = ([], Inr [])"
  using findSessionsByShop_sequence [where this = "example_storage (\<lambda>i. Inr JUndefined)"
      and shop = "''s.myshopify.io''"]
    findSessionsByShop_sequence [where
      this = "finding_storage (JObj (Some ''Object'') [(''id'', JStr ''x'')])"
      and cb = "\<lambda>shop. Inr (JObj (Some ''Object'') [(''id'', JStr ''x'')])"
      and shop = "''s.myshopify.io''"
      and v = "JObj (Some ''Object'') [(''id'', JStr ''x'')]"]
  by (simp add: example_storage_def finding_storage_def)

text \<open>
  C7. For every list of ids, \<open>deleteSessions\<close> of an adapter without bulk-delete callback
  resolves to \<open>false\<close>: it does not throw, and the missing capability is reported as one
  console warning.
\<close>

theorem deleteSessions_without_callback:
  assumes "deleteSessionsCallback this = None"
  shows "deleteSessions this ids =
    ([''CustomSessionStorage failed to delete array of sessions. Error Details: deleteSessionsCallback not defined.''],
     Inr False)"
  using assms by (simp add: deleteSessions_def)

theorem deleteSessions_without_callback_witness:
  "deleteSessions
     \<lparr>storeSessionCallback = (\<lambda>s. Inr True), loadSessionCallback = (\<lambda>i. Inr JUndefined),
      deleteSessionCallback = (\<lambda>i. Inr True), deleteSessionsCallback = None,
      findSessionsByShopCallback = None\<rparr> [''a'', ''b''] =
    ([''CustomSessionStorage failed to delete array of sessions. Error Details: deleteSessionsCallback not defined.''],
     Inr False)"
  by (rule deleteSessions_without_callback) simp

text \<open>
  C10. When the load callback resolves to a falsy value (\<open>undefined\<close>, \<open>null\<close>, \<open>false\<close>,
  \<open>0\<close>, the empty string, \<open>NaN\<close>), \<open>loadSession\<close> resolves to \<open>undefined\<close> without error;
  and whenever \<open>loadSession\<close> raises the unrecognized-shape SessionStorageError, the callback
  had resolved to a truthy value.
\<close>

theorem loadSession_falsy_absent:
  "(loadSessionCallback this i = Inr v \<and>
      v \<in> {JUndefined, JNull, JBool False, JNum (Num 0), JStr [], JNum NaN} \<longrightarrow>
        loadSession this i = Inr JUndefined)
   \<and> (loadSession this i = Inl (SessionStorageError
        (''Expected return to be instanceof Session, but received instanceof '' @ n @ ''.'')) \<longrightarrow>
        (\<exists>r. loadSessionCallback this i = Inr r \<and> truthy r))"
  by (auto simp: loadSession_def SessionStorageError_def Let_def
        dest: template_string_TypeError split: sum.splits if_splits)

theorem loadSession_falsy_absent_witness:
  "loadSession (example_storage (\<lambda>i. Inr (JBool False))) ''x'' = Inr JUndefined
   \<and> loadSession (example_storage (\<lambda>i. Inr (JStr []))) ''x'' = Inr JUndefined
   \<and> (\<exists>r. loadSessionCallback (example_storage (\<lambda>i. Inr (JNum (Num 5)))) ''x'' = Inr r
         \<and> truthy r)"
proof -
  have "loadSession (example_storage (\<lambda>i. Inr (JNum (Num 5)))) ''x'' =
      Inl (SessionStorageError
        (''Expected return to be instanceof Session, but received instanceof '' @ ''Number'' @ ''.''))"
    by (simp add: example_storage_def loadSession_def)
  then show ?thesis
    using loadSession_falsy_absent [where this = "example_storage (\<lambda>i. Inr (JBool False))"
        and i = "''x''" and v = "JBool False"]
      loadSession_falsy_absent [where this = "example_storage (\<lambda>i. Inr (JStr []))"
        and i = "''x''" and v = "JStr []"]
      loadSession_falsy_absent [where this = "example_storage (\<lambda>i. Inr (JNum (Num 5)))"
        and i = "''x''" and n = "''Number''"]
    by (simp add: example_storage_def)
qed


section \<open>Properties of the signing helpers\<close>

lemma insert_sorted_insort:
  assumes "\<forall>a\<in>insert x (set ys). \<forall>b\<in>insert x (set ys). (cmp a b \<le> 0) = (a \<le> b)"
  shows "insert_sorted cmp x ys = insort x ys"
  using assms by (induction ys) auto

lemma sort_with_sort:
  assumes "\<forall>a\<in>set xs. \<forall>b\<in>set xs. (cmp a b \<le> 0) = (a \<le> b)"
  shows "sort_with cmp xs = sort xs"
  using assms
proof (induction xs)
  case Nil
  show ?case by (simp add: sort_with_def)
next
  case (Cons x xs)
  then have ih: "sort_with cmp xs = sort xs" by simp
  have "insert_sorted cmp x (sort xs) = insort x (sort xs)"
    using Cons.prems by (intro insert_sorted_insort) auto
  with ih show ?case by (simp add: sort_with_def sort_key_def)
qed

lemma length_insert_sorted: "length (insert_sorted cmp x ys) = Suc (length ys)"
  by (induction ys) simp_all

lemma length_sort_with: "length (sort_with cmp xs) = length xs"
  by (induction xs) (simp_all add: sort_with_def length_insert_sorted)

lemma form_encode_unreserved:
  assumes "\<forall>c\<in>set s. form_unreserved c"
  shows "form_encode s = s"
proof -
  have sp: "\<not> form_unreserved CHR '' ''" by (simp add: form_unreserved_def)
  have "form_encode_byte c = [c]" if "form_unreserved c" for c
    using that sp by (auto simp: form_encode_byte_def)
  with assms show ?thesis
    unfolding form_encode_def by (induction s) simp_all
qed

lemma hex_digit_unreserved: "form_unreserved (hex_digit n)"
proof -
  define k where "k = n mod 16"
  have "k < 16" by (simp add: k_def)
  then have "form_unreserved (if k < 10 then char_of (48 + k) else char_of (87 + k))"
    unfolding form_unreserved_def Let_def of_char_of by auto
  then show ?thesis unfolding hex_digit_def k_def .
qed

lemma hex_encode_unreserved: "\<forall>c\<in>set (hex_encode bytes). form_unreserved c"
  by (auto simp: hex_encode_def hex_digit_unreserved)

lemma fold_append_args:
  "fold (\<lambda>key args. URLSearchParams_append args key (f key)) ks acc = acc @ map (\<lambda>k. (k, f k)) ks"
  by (induction ks arbitrary: acc) (simp_all add: URLSearchParams_append_def)

lemma sorted_args_eq:
  "sorted_args cmp q =
     map (\<lambda>k. (k, case map_of q k of Some v \<Rightarrow> v | None \<Rightarrow> ''undefined''))
       (sort_with cmp (map fst q))"
  by (simp add: sorted_args_def fold_append_args)

lemma toString_join:
  "URLSearchParams_toString (map (\<lambda>k. (k, f k)) ks) =
     join_with ''&'' (map (\<lambda>k. form_encode k @ ''='' @ form_encode (f k)) ks)"
  by (simp add: URLSearchParams_toString_def comp_def)

lemma join_with_snoc:
  "xs \<noteq> [] \<Longrightarrow> join_with sep (xs @ [y]) = join_with sep xs @ sep @ y"
  by (induction sep xs rule: join_with.induct) simp_all

lemma with_timestamp_nonempty: "with_timestamp now query \<noteq> []"
  by (auto simp: with_timestamp_def)

text \<open>
  C2. \<open>queryArgs\<close> ensures a \<open>timestamp\<close> key, sorts the keys with \<open>localeCompare\<close>,
  serializes the pairs as \<open>application/x-www-form-urlencoded\<close> and appends an \<open>hmac\<close>
  parameter that is the lower-case hexadecimal HMAC-SHA256 of that serialized string.
  Where \<open>localeCompare\<close> orders the keys of the query as byte order does, and the keys and
  values hold only characters the serializer leaves alone, the result is the one the
  specification describes: the HMAC of the unencoded, byte-sorted \<open>key=value&...\<close> string.
\<close>

theorem queryArgs_signs_serialized_query:
  "queryArgs hmac_sha256 localeCompare secret now query =
     signed_message localeCompare now query @ ''&hmac=''
       @ hex_encode (hmac_sha256 secret (signed_message localeCompare now query))
   \<and> ((\<forall>a\<in>set (map fst (with_timestamp now query)).
         \<forall>b\<in>set (map fst (with_timestamp now query)). (localeCompare a b \<le> 0) = (a \<le> b))
       \<and> (\<forall>(k, v)\<in>set (with_timestamp now query).
             (\<forall>c\<in>set k. form_unreserved c) \<and> (\<forall>c\<in>set v. form_unreserved c))
       \<longrightarrow> queryArgs hmac_sha256 localeCompare secret now query =
             spec_signed_query hmac_sha256 secret now query)"
proof -
  let ?q = "with_timestamp now query"
  let ?args = "sorted_args localeCompare ?q"
  have ne: "map (\<lambda>(name, v). form_encode name @ ''='' @ form_encode v) ?args \<noteq> []"
    using with_timestamp_nonempty [of now query] length_sort_with [of localeCompare "map fst ?q"]
    by (auto simp: sorted_args_eq)
  have hex: "form_encode (hex_encode d) = hex_encode d" for d
    by (rule form_encode_unreserved) (rule hex_encode_unreserved)
  have hm: "form_encode ''hmac'' = ''hmac''"
    by (rule form_encode_unreserved) (simp add: form_unreserved_def)
  have first: "queryArgs hmac_sha256 localeCompare secret now query =
     signed_message localeCompare now query @ ''&hmac=''
       @ hex_encode (hmac_sha256 secret (signed_message localeCompare now query))"
    using join_with_snoc [OF ne, of "''&''"]
    by (simp add: queryArgs_def signed_message_def Let_def URLSearchParams_append_def
          URLSearchParams_toString_def createTestHmac_def hex hm)
  have second: "signed_message localeCompare now query = spec_canonical_query now query"
    if ord: "\<forall>a\<in>set (map fst ?q). \<forall>b\<in>set (map fst ?q). (localeCompare a b \<le> 0) = (a \<le> b)"
    and unres: "\<forall>(k, v)\<in>set ?q. (\<forall>c\<in>set k. form_unreserved c) \<and> (\<forall>c\<in>set v. form_unreserved c)"
  proof -
    have srt: "sort_with localeCompare (map fst ?q) = sort (map fst ?q)"
      using ord by (rule sort_with_sort)
    have q: "?q = (if ''timestamp'' \<in> fst ` set query then query
               else query @ [(''timestamp'', number_toString (now div 1000))])"
      by (simp add: with_timestamp_def)
    have enc_k: "form_encode k = k" if "k \<in> fst ` set ?q" for k
      using that unres by (intro form_encode_unreserved) fastforce
    have enc_v: "form_encode (case map_of ?q k of Some v \<Rightarrow> v | None \<Rightarrow> ''undefined'')
        = (case map_of ?q k of Some v \<Rightarrow> v | None \<Rightarrow> ''undefined'')" if "k \<in> fst ` set ?q" for k
    proof -
      from that obtain v where v: "map_of ?q k = Some v"
        by (metis map_of_eq_None_iff not_None_eq)
      then have "(k, v) \<in> set ?q" by (rule map_of_SomeD)
      with unres have "\<forall>c\<in>set v. form_unreserved c" by fastforce
      then show ?thesis using v by (simp add: form_encode_unreserved)
    qed
    have "map (\<lambda>k. form_encode k @ ''=''
                @ form_encode (case map_of ?q k of Some v \<Rightarrow> v | None \<Rightarrow> ''undefined''))
            (sort (map fst ?q))
        = map (\<lambda>k. k @ ''='' @ (case map_of ?q k of Some v \<Rightarrow> v | None \<Rightarrow> ''undefined''))
            (sort (map fst ?q))"
      by (rule map_cong) (auto simp: enc_k enc_v)
    then show ?thesis
      unfolding signed_message_def sorted_args_eq toString_join srt spec_canonical_query_def
        Let_def q [symmetric]
      by (rule arg_cong)
  qed
  show ?thesis
    using first second by (auto simp: spec_signed_query_def)
qed

text \<open>
  The specification's fixture, for byte order as the comparison and any digest function:
  the \<open>hmac\<close> parameter is the hexadecimal digest of
  \<open>shop=a.myshopify.io&timestamp=1700000000\<close> under the key \<open>sekrit\<close>.
\<close>

theorem queryArgs_signs_serialized_query_witness:
  "\<forall>h. queryArgs h byte_order_compare ''sekrit'' 0
      [(''shop'', ''a.myshopify.io''), (''timestamp'', ''1700000000'')] =
    ''shop=a.myshopify.io&timestamp=1700000000&hmac=''
      @ hex_encode (h ''sekrit'' ''shop=a.myshopify.io&timestamp=1700000000'')"
proof
  fix h :: "string \<Rightarrow> string \<Rightarrow> string"
  let ?query = "[(''shop'', ''a.myshopify.io''), (''timestamp'', ''1700000000'')]"
  have q: "with_timestamp 0 ?query = ?query"
    by (simp add: with_timestamp_def)
  have ord: "\<forall>a\<in>set (map fst (with_timestamp 0 ?query)).
      \<forall>b\<in>set (map fst (with_timestamp 0 ?query)). (byte_order_compare a b \<le> 0) = (a \<le> b)"
    by (auto simp: byte_order_compare_def)
  have unres: "\<forall>(k, v)\<in>set (with_timestamp 0 ?query).
      (\<forall>c\<in>set k. form_unreserved c) \<and> (\<forall>c\<in>set v. form_unreserved c)"
    unfolding q by (simp add: form_unreserved_def)
  have canon: "spec_canonical_query 0 ?query = ''shop=a.myshopify.io&timestamp=1700000000''"
    by (simp add: spec_canonical_query_def)
  from queryArgs_signs_serialized_query [of h byte_order_compare "''sekrit''" 0 ?query] ord unres
  have "queryArgs h byte_order_compare ''sekrit'' 0 ?query = spec_signed_query h ''sekrit'' 0 ?query"
    by blast
  then show "queryArgs h byte_order_compare ''sekrit'' 0 ?query =
      ''shop=a.myshopify.io&timestamp=1700000000&hmac=''
        @ hex_encode (h ''sekrit'' ''shop=a.myshopify.io&timestamp=1700000000'')"
    by (simp add: spec_signed_query_def canon)
qed

text \<open>
  The claim as stated fails as soon as a value holds a character the serializer encodes:
  the signed message for \<open>{q: "a b", timestamp: "1700000000"}\<close> has \<open>a+b\<close>, not \<open>a b\<close>, even
  with byte order as the comparison.
\<close>

theorem queryArgs_unencoded_counterexample:
  "signed_message byte_order_compare 0 [(''q'', ''a b''), (''timestamp'', ''1700000000'')]
     = ''q=a+b&timestamp=1700000000''
   \<and> spec_canonical_query 0 [(''q'', ''a b''), (''timestamp'', ''1700000000'')]
     = ''q=a b&timestamp=1700000000''
   \<and> signed_message byte_order_compare 0 [(''q'', ''a b''), (''timestamp'', ''1700000000'')]
     \<noteq> spec_canonical_query 0 [(''q'', ''a b''), (''timestamp'', ''1700000000'')]"
proof -
  have a: "signed_message byte_order_compare 0 [(''q'', ''a b''), (''timestamp'', ''1700000000'')]
     = ''q=a+b&timestamp=1700000000''"
    by (simp add: signed_message_def with_timestamp_def sorted_args_def sort_with_def
          byte_order_compare_def URLSearchParams_append_def URLSearchParams_toString_def
          form_encode_def form_encode_byte_def form_unreserved_def)
  have b: "spec_canonical_query 0 [(''q'', ''a b''), (''timestamp'', ''1700000000'')]
     = ''q=a b&timestamp=1700000000''"
    by (simp add: spec_canonical_query_def)
  show ?thesis unfolding a b by simp
qed

text \<open>
  C8. For every body and secret, \<open>validWebhookHeaders\<close> gives the five webhook headers, and
  \<open>X-Shopify-Hmac-Sha256\<close> is the base64 text of the HMAC-SHA256 of the body under the
  secret; so it is for the body \<open>{}\<close> and the secret \<open>sekrit\<close>.
\<close>

theorem validWebhookHeaders_signature:
  "validWebhookHeaders hmac_sha256 version topic body secret =
     [(''X-Shopify-Topic'', topic),
      (''X-Shopify-Shop-Domain'', ''test-shop.myshopify.io''),
      (''X-Shopify-Hmac-Sha256'', base64_encode (hmac_sha256 secret body)),
      (''X-Shopify-Webhook-Id'', ''1234567890''),
      (''X-Shopify-Api-Version'', version)]
   \<and> map_of (validWebhookHeaders hmac_sha256 version topic ''{}'' ''sekrit'')
        ''X-Shopify-Hmac-Sha256'' = Some (base64_encode (hmac_sha256 ''sekrit'' ''{}''))"
  by (simp add: validWebhookHeaders_def createTestHmac_def TEST_SHOP_def TEST_WEBHOOK_ID_def)


section \<open>Properties of the after-auth hook\<close>

text \<open>
  C9. With an \<open>afterAuth\<close> hook configured, \<open>triggerAfterAuthHook\<close> calls it exactly once,
  with the session, the admin context made for that session and the redirect function the
  embedded flag selects, and its outcome is the hook's outcome: an exception of the hook
  is passed on as it is. Without a hook nothing is called and nothing fails.
\<close>

theorem triggerAfterAuthHook_dispatch:
  "(afterAuth (hooks (config params)) = Some hook \<longrightarrow>
      triggerAfterAuthHook createAdminApiContext redirectFactory remixRedirect handleClientError
          params sess request =
        ([LoggerInfo ''Running afterAuth hook'',
          AfterAuthCall (AfterAuthOptions sess
            (createAdminApiContext sess params (handleClientError request))
            (if isEmbeddedApp (config params) then redirectFactory params request
             else remixRedirect))],
         hook (AfterAuthOptions sess
            (createAdminApiContext sess params (handleClientError request))
            (if isEmbeddedApp (config params) then redirectFactory params request
             else remixRedirect)))
      \<and> length (hook_calls (fst (triggerAfterAuthHook createAdminApiContext redirectFactory
            remixRedirect handleClientError params sess request))) = 1
      \<and> (\<forall>E. hook (AfterAuthOptions sess
            (createAdminApiContext sess params (handleClientError request))
            (if isEmbeddedApp (config params) then redirectFactory params request
             else remixRedirect)) = Inl E \<longrightarrow>
           snd (triggerAfterAuthHook createAdminApiContext redirectFactory remixRedirect
             handleClientError params sess request) = Inl E))
   \<and> (afterAuth (hooks (config params)) = None \<longrightarrow>
      triggerAfterAuthHook createAdminApiContext redirectFactory remixRedirect handleClientError
          params sess request = ([], Inr ()))"
  by (simp add: triggerAfterAuthHook_def Let_def)

text \<open>
  An embedded app whose hook fails, a standalone app whose hook succeeds, and an app
  without hook. Sessions, requests, contexts and redirects are strings here.
\<close>

theorem triggerAfterAuthHook_dispatch_witness:
  "triggerAfterAuthHook (\<lambda>s p h. ''admin:'' @ s) (\<lambda>p q. ''embedded'') ''remix'' (\<lambda>q. ())
      \<lparr>config = \<lparr>hooks = \<lparr>afterAuth = Some (\<lambda>options. Inl (JsError ''Error'' ''Error'' ''boom''))\<rparr>,
                 isEmbeddedApp = True\<rparr>\<rparr> ''session-1'' ''request-1''
     = ([LoggerInfo ''Running afterAuth hook'',
         AfterAuthCall (AfterAuthOptions ''session-1'' ''admin:session-1'' ''embedded'')],
        Inl (JsError ''Error'' ''Error'' ''boom''))
   \<and> triggerAfterAuthHook (\<lambda>s p h. ''admin:'' @ s) (\<lambda>p q. ''embedded'') ''remix'' (\<lambda>q. ())
      \<lparr>config = \<lparr>hooks = \<lparr>afterAuth = Some (\<lambda>options. Inr ())\<rparr>,
                 isEmbeddedApp = False\<rparr>\<rparr> ''session-1'' ''request-1''
     = ([LoggerInfo ''Running afterAuth hook'',
         AfterAuthCall (AfterAuthOptions ''session-1'' ''admin:session-1'' ''remix'')],
        Inr ())
   \<and> triggerAfterAuthHook (\<lambda>s p h. ''admin:'' @ s) (\<lambda>p q. ''embedded'') ''remix'' (\<lambda>q. ())
      \<lparr>config = \<lparr>hooks = \<lparr>afterAuth = None\<rparr>, isEmbeddedApp = True\<rparr>\<rparr>
      ''session-1'' ''request-1''
     = ([], Inr ())"
  using
    triggerAfterAuthHook_dispatch [where
      params = "\<lparr>config = \<lparr>hooks = \<lparr>afterAuth = Some (\<lambda>options. Inl (JsError ''Error'' ''Error'' ''boom''))\<rparr>,
                 isEmbeddedApp = True\<rparr>\<rparr>"
      and hook = "\<lambda>options. Inl (JsError ''Error'' ''Error'' ''boom'')"
      and createAdminApiContext = "\<lambda>s p h. ''admin:'' @ s" and redirectFactory = "\<lambda>p q. ''embedded''"
      and remixRedirect = "''remix''" and handleClientError = "\<lambda>q. ()"
      and sess = "''session-1''" and request = "''request-1''"]
    triggerAfterAuthHook_dispatch [where
      params = "\<lparr>config = \<lparr>hooks = \<lparr>afterAuth = Some (\<lambda>options. Inr ())\<rparr>,
                 isEmbeddedApp = False\<rparr>\<rparr>"
      and hook = "\<lambda>options. Inr ()"
      and createAdminApiContext = "\<lambda>s p h. ''admin:'' @ s" and redirectFactory = "\<lambda>p q. ''embedded''"
      and remixRedirect = "''remix''" and handleClientError = "\<lambda>q. ()"
      and sess = "''session-1''" and request = "''request-1''"]
    triggerAfterAuthHook_dispatch [where
      params = "\<lparr>config = \<lparr>hooks = \<lparr>afterAuth = None\<rparr>, isEmbeddedApp = True\<rparr>\<rparr>"
      and createAdminApiContext = "\<lambda>s p h. ''admin:'' @ s" and redirectFactory = "\<lambda>p q. ''embedded''"
      and remixRedirect = "''remix''" and handleClientError = "\<lambda>q. ()"
      and sess = "''session-1''" and request = "''request-1''"]
  by simp

end
